theory Spec2Isabelle
  imports Main "HOL-Library.Word"
begin

section \<open>The chat page \<open>src/Page/Chat.tsx\<close>\<close>

text \<open>
  The source file holds two revisions of the component, one after the other. The second
  (from line 132) is the complete one: it has the three subscriptions and the edit and
  delete actions. Its \<open>fetchMessages\<close>, \<open>sendMessage\<close> and \<open>messagePosted\<close> handler do
  to the state what the first revision's do. The embedding follows the second revision.
\<close>

subsection \<open>JavaScript strings\<close>

text \<open>
  A JavaScript string is a sequence of 16-bit code units. \<open>ascii\<close> writes a literal of the
  source, whose characters are all ASCII, as such a sequence.
\<close>

type_synonym jsstring = "16 word list"

definition ascii :: "string \<Rightarrow> jsstring" where
  "ascii s = map of_char s"

text \<open>
  \<open>String.prototype.trim\<close> strips, from both ends, the code units that ECMAScript calls
  WhiteSpace (TAB, VT, FF, ZWNBSP and the Unicode space separators) or LineTerminator
  (LF, CR, LS, PS). All of them are single code units.
\<close>

definition isWhiteSpace :: "16 word \<Rightarrow> bool" where
  "isWhiteSpace c \<longleftrightarrow>
     c \<in> set [0x0009, 0x000A, 0x000B, 0x000C, 0x000D, 0x0020, 0x00A0, 0x1680,
              0x2000, 0x2001, 0x2002, 0x2003, 0x2004, 0x2005, 0x2006, 0x2007,
              0x2008, 0x2009, 0x200A, 0x2028, 0x2029, 0x202F, 0x205F, 0x3000,
              0xFEFF]"

definition trim :: "jsstring \<Rightarrow> jsstring" where
  "trim s = rev (dropWhile isWhiteSpace (rev (dropWhile isWhiteSpace s)))"

text \<open>A string is falsy exactly when it is empty: \<open>!text.trim()\<close> is \<open>\<not> truthy (trim text)\<close>.\<close>

definition truthy :: "jsstring \<Rightarrow> bool" where
  "truthy s \<longleftrightarrow> s \<noteq> []"

subsection \<open>Data model\<close>

text \<open>
  \<open>type Message = { id; user; text; createdAt }\<close>, all strings. The fields \<open>id\<close>, \<open>user\<close>
  and \<open>text\<close> carry the suffix \<open>_m\<close>: \<open>id\<close> is a constant of HOL, \<open>text\<close> a keyword, and
  \<open>user\<close> is also a state variable of the component.
\<close>

record Message =
  id_m :: jsstring
  user_m :: jsstring
  text_m :: jsstring
  createdAt :: jsstring

text \<open>
  The payload of \<open>messageDeleted { id success }\<close>. The handler only tests \<open>success\<close> for
  truthiness, so a \<open>null\<close> there (\<open>None\<close>) counts as \<open>false\<close>.
\<close>

record DeleteResult =
  id_d :: jsstring
  success :: "bool option"

text \<open>
  What the transport hands over is untyped (\<open>any\<close>): an execution result whose \<open>data\<close>
  may be missing, holding an object whose one field may be \<open>null\<close>. Each level that
  the source guards with \<open>?.\<close> is an \<open>option\<close>, with \<open>None\<close> for \<open>null\<close> and
  \<open>undefined\<close>.
\<close>

record 'p ExecutionResult =
  data :: "'p option"

record MessagesData =
  messages_q :: "Message list option"

record PostedData =
  messagePosted :: "Message option"

record UpdatedData =
  messageUpdated :: "Message option"

record DeletedData =
  messageDeleted :: "DeleteResult option"

text \<open>The state variables of the component (\<open>useState\<close>); \<open>text\<close> is \<open>text_s\<close> here.\<close>

record App =
  messages :: "Message list"
  user :: jsstring
  text_s :: jsstring
  editingId :: "jsstring option"
  editingText :: jsstring

text \<open>
  What a handler does besides updating the state: a request to the GraphQL endpoint
  (with the variables it sends) or a toast.
\<close>

datatype request =
    QueryMessages
  | PostMessage jsstring jsstring
  | UpdateMessage jsstring jsstring
  | DeleteMessage jsstring

datatype effect = Fetch request | Toast jsstring

text \<open>An awaited promise either rejects, which throws at the \<open>await\<close>, or resolves.\<close>

datatype 'a outcome = Rejected | Resolved 'a

subsection \<open>Sync controller\<close>

text \<open>
  \<open>fetchMessages\<close> (lines 162 to 171). The argument is the outcome of
  \<open>await fetch(...)\<close> followed by \<open>await res.json()\<close>. An array is truthy even when it is
  empty, so every list, the empty one too, replaces the collection.
\<close>

definition fetchMessages ::
  "MessagesData ExecutionResult option outcome \<Rightarrow> App \<Rightarrow> App \<times> effect list" where
  "fetchMessages res st =
     (case res of
        Rejected \<Rightarrow> (st, [Fetch QueryMessages])
      | Resolved json \<Rightarrow>
          (case Option.bind (Option.bind json data) messages_q of
             Some ms \<Rightarrow> (st\<lparr>messages := ms\<rparr>, [Fetch QueryMessages])
           | None \<Rightarrow> (st, [Fetch QueryMessages])))"

text \<open>The \<open>next\<close> handler of the \<open>messagePosted\<close> subscription (lines 180 to 186).\<close>

definition messagePosted_next ::
  "PostedData ExecutionResult option \<Rightarrow> App \<Rightarrow> App \<times> effect list" where
  "messagePosted_next d st =
     (case Option.bind (Option.bind d data) messagePosted of
        Some m \<Rightarrow>
          (st\<lparr>messages := messages st @ [m]\<rparr>,
           [Toast (ascii ''New message from '' @ user_m m @ ascii '': '' @ text_m m)])
      | None \<Rightarrow> (st, []))"

text \<open>The \<open>next\<close> handler of the \<open>messageUpdated\<close> subscription (lines 195 to 203).\<close>

definition messageUpdated_next ::
  "UpdatedData ExecutionResult option \<Rightarrow> App \<Rightarrow> App \<times> effect list" where
  "messageUpdated_next d st =
     (case Option.bind (Option.bind d data) messageUpdated of
        Some m \<Rightarrow>
          (st\<lparr>messages := map (\<lambda>msg. if id_m msg = id_m m then m else msg) (messages st)\<rparr>,
           [Toast (ascii ''Message updated by '' @ user_m m)])
      | None \<Rightarrow> (st, []))"

text \<open>The \<open>next\<close> handler of the \<open>messageDeleted\<close> subscription (lines 212 to 220).\<close>

definition messageDeleted_next ::
  "DeletedData ExecutionResult option \<Rightarrow> App \<Rightarrow> App \<times> effect list" where
  "messageDeleted_next d st =
     (case Option.bind (Option.bind d data) messageDeleted of
        Some deleteData \<Rightarrow>
          (if success deleteData = Some True
           then (st\<lparr>messages := filter (\<lambda>msg. id_m msg \<noteq> id_d deleteData) (messages st)\<rparr>,
                 [Toast (ascii ''Message deleted'')])
           else (st, []))
      | None \<Rightarrow> (st, []))"

subsection \<open>Mutation dispatcher\<close>

text \<open>
  \<open>sendMessage\<close> (lines 238 to 251). The first argument is the outcome of the awaited
  \<open>fetch\<close> of the mutation, whose response is never read; the second is the outcome of the
  refetch that follows.
\<close>

definition sendMessage ::
  "unit outcome \<Rightarrow> MessagesData ExecutionResult option outcome \<Rightarrow> App \<Rightarrow> App \<times> effect list" where
  "sendMessage posted res st =
     (if \<not> truthy (trim (text_s st)) then (st, [])
      else
        (case posted of
           Rejected \<Rightarrow> (st, [Fetch (PostMessage (user st) (text_s st))])
         | Resolved _ \<Rightarrow>
             (case fetchMessages res (st\<lparr>text_s := []\<rparr>) of
                (st', es) \<Rightarrow> (st', Fetch (PostMessage (user st) (text_s st)) # es))))"

text \<open>\<open>saveEdit\<close> (lines 253 to 267).\<close>

definition saveEdit ::
  "jsstring \<Rightarrow> unit outcome \<Rightarrow> MessagesData ExecutionResult option outcome \<Rightarrow> App \<Rightarrow>
     App \<times> effect list" where
  "saveEdit i updated res st =
     (if \<not> truthy (trim (editingText st)) then (st, [])
      else
        (case updated of
           Rejected \<Rightarrow> (st, [Fetch (UpdateMessage i (editingText st))])
         | Resolved _ \<Rightarrow>
             (case fetchMessages res (st\<lparr>editingId := None, editingText := []\<rparr>) of
                (st', es) \<Rightarrow> (st', Fetch (UpdateMessage i (editingText st)) # es))))"

text \<open>\<open>deleteMessage\<close> (lines 269 to 280).\<close>

definition deleteMessage ::
  "jsstring \<Rightarrow> unit outcome \<Rightarrow> MessagesData ExecutionResult option outcome \<Rightarrow> App \<Rightarrow>
     App \<times> effect list" where
  "deleteMessage i deleted res st =
     (case deleted of
        Rejected \<Rightarrow> (st, [Fetch (DeleteMessage i)])
      | Resolved _ \<Rightarrow>
          (case fetchMessages res st of
             (st', es) \<Rightarrow> (st', Fetch (DeleteMessage i) # es)))"

subsection \<open>Well-formed events\<close>

text \<open>
  The events the server sends when all goes well: an execution result whose \<open>data\<close>
  carries the message, the deletion report, or the list of messages.
\<close>

definition postedEvent :: "Message \<Rightarrow> PostedData ExecutionResult option" where
  "postedEvent m = Some \<lparr>data = Some \<lparr>messagePosted = Some m\<rparr>\<rparr>"

definition updatedEvent :: "Message \<Rightarrow> UpdatedData ExecutionResult option" where
  "updatedEvent m = Some \<lparr>data = Some \<lparr>messageUpdated = Some m\<rparr>\<rparr>"

definition deletedEvent :: "jsstring \<Rightarrow> bool \<Rightarrow> DeletedData ExecutionResult option" where
  "deletedEvent i ok =
     Some \<lparr>data = Some \<lparr>messageDeleted = Some \<lparr>id_d = i, success = Some ok\<rparr>\<rparr>\<rparr>"

definition messagesResponse :: "Message list \<Rightarrow> MessagesData ExecutionResult option outcome" where
  "messagesResponse ms = Resolved (Some \<lparr>data = Some \<lparr>messages_q = Some ms\<rparr>\<rparr>)"

text \<open>The collection after a handler has run.\<close>

abbreviation onCreated :: "Message \<Rightarrow> App \<Rightarrow> Message list" where
  "onCreated m st \<equiv> messages (fst (messagePosted_next (postedEvent m) st))"

abbreviation onUpdated :: "Message \<Rightarrow> App \<Rightarrow> Message list" where
  "onUpdated m st \<equiv> messages (fst (messageUpdated_next (updatedEvent m) st))"

abbreviation onDeleted :: "jsstring \<Rightarrow> bool \<Rightarrow> App \<Rightarrow> Message list" where
  "onDeleted i ok st \<equiv> messages (fst (messageDeleted_next (deletedEvent i ok) st))"

text \<open>
  The messages and the state of the examples: the message \<open>{id: "1", user: "A", text: "hi"}\<close>,
  its edited version, a message of another author, and the component as it is mounted.
\<close>

definition msgHi :: Message where
  "msgHi = \<lparr>id_m = ascii ''1'', user_m = ascii ''A'', text_m = ascii ''hi'',
            createdAt = ascii ''t1''\<rparr>"

definition msgHello :: Message where
  "msgHello = \<lparr>id_m = ascii ''1'', user_m = ascii ''A'', text_m = ascii ''hello'',
               createdAt = ascii ''t1''\<rparr>"

definition msgOther :: Message where
  "msgOther = \<lparr>id_m = ascii ''2'', user_m = ascii ''B'', text_m = ascii ''yo'',
               createdAt = ascii ''t2''\<rparr>"

definition mounted :: App where
  "mounted = \<lparr>messages = [], user = ascii ''User7'', text_s = [], editingId = None,
              editingText = []\<rparr>"

definition showing :: "Message list \<Rightarrow> App" where
  "showing ms = mounted\<lparr>messages := ms\<rparr>"

text \<open>
  An update event for message 1 whose author and timestamp differ from the stored ones.
\<close>

definition msgForeign :: Message where
  "msgForeign = \<lparr>id_m = ascii ''1'', user_m = ascii ''Z'', text_m = ascii ''hello'',
                 createdAt = ascii ''t9''\<rparr>"

text \<open>
  The race of a local post: the refetch of \<open>sendMessage\<close> already brings the new
  message, and then its \<open>messagePosted\<close> event arrives.
\<close>

definition refetchedThenPosted :: App where
  "refetchedThenPosted =
     fst (messagePosted_next (postedEvent msgHi)
       (fst (fetchMessages (messagesResponse [msgHi]) mounted)))"

subsection \<open>What the handlers do to the collection\<close>

lemma posted_collection: "onCreated m st = messages st @ [m]"
  by (simp add: messagePosted_next_def postedEvent_def)

lemma updated_collection:
  "onUpdated m st = map (\<lambda>msg. if id_m msg = id_m m then m else msg) (messages st)"
  by (simp add: messageUpdated_next_def updatedEvent_def)

lemma deleted_collection:
  "onDeleted i ok st = (if ok then filter (\<lambda>msg. id_m msg \<noteq> i) (messages st) else messages st)"
  by (simp add: messageDeleted_next_def deletedEvent_def)

lemma fetched_collection: "messages (fst (fetchMessages (messagesResponse ms) st)) = ms"
  by (simp add: fetchMessages_def messagesResponse_def)

lemma map_if_absent:
  "i \<notin> f ` set xs \<Longrightarrow> map (\<lambda>x. if f x = i then y else x) xs = xs"
  by (induction xs) auto

lemma filter_matching_replaced:
  "f y = i \<Longrightarrow>
   filter (\<lambda>x. f x = i) (map (\<lambda>x. if f x = i then y else x) xs) =
   replicate (length (filter (\<lambda>x. f x = i) xs)) y"
  by (induction xs) auto

lemma length_filter_complement:
  "length (filter (\<lambda>x. f x \<noteq> i) xs) = length xs - length (filter (\<lambda>x. f x = i) xs)"
proof -
  have "length xs = length (filter (\<lambda>x. f x = i) xs) + length (filter (\<lambda>x. \<not> f x = i) xs)"
    by (rule sum_length_filter_compl [symmetric])
  then show ?thesis by simp
qed

lemma distinct_one_match:
  "distinct (map f xs) \<Longrightarrow> i \<in> f ` set xs \<Longrightarrow> length (filter (\<lambda>x. f x = i) xs) = 1"
proof (induction xs)
  case Nil
  then show ?case by simp
next
  case (Cons a xs)
  show ?case
  proof (cases "f a = i")
    case True
    from Cons.prems(1) have "f a \<notin> f ` set xs" by simp
    with True have "\<forall>x\<in>set xs. f x \<noteq> i" by (metis imageI)
    then have "filter (\<lambda>x. f x = i) xs = []" by (simp add: filter_empty_conv)
    with True show ?thesis by simp
  next
    case False
    with Cons show ?thesis by auto
  qed
qed

lemma dropWhile_all_iff:
  "(\<forall>x\<in>set (dropWhile P s). P x) \<longleftrightarrow> (\<forall>x\<in>set s. P x)"
proof
  assume rest: "\<forall>x\<in>set (dropWhile P s). P x"
  have "dropWhile P s = []"
  proof (rule ccontr)
    assume ne: "dropWhile P s \<noteq> []"
    then have "\<not> P (hd (dropWhile P s))" by (rule hd_dropWhile)
    moreover from ne have "hd (dropWhile P s) \<in> set (dropWhile P s)" by (rule hd_in_set)
    ultimately show False using rest by blast
  qed
  then show "\<forall>x\<in>set s. P x" by (simp only: dropWhile_eq_Nil_conv)
next
  assume "\<forall>x\<in>set s. P x"
  then show "\<forall>x\<in>set (dropWhile P s). P x" by (blast dest: set_dropWhileD)
qed

lemma trim_empty_iff: "trim s = [] \<longleftrightarrow> list_all isWhiteSpace s"
  by (simp add: trim_def dropWhile_all_iff list_all_iff)

subsection \<open>The examples\<close>

lemmas examples = showing_def mounted_def msgHi_def msgHello_def msgOther_def msgForeign_def
  refetchedThenPosted_def ascii_def

lemma refetchedThenPosted_messages: "messages refetchedThenPosted = [msgHi, msgHi]"
  by (simp add: refetchedThenPosted_def posted_collection fetched_collection)

text \<open>
  The scenario of the specification: from the empty collection, message 1 is posted,
  edited and deleted.
\<close>

lemma end_to_end_scenario:
  "onCreated msgHi (showing []) = [msgHi] \<and>
   onUpdated msgHello (showing [msgHi]) = [msgHello] \<and>
   onDeleted (id_m msgHi) True (showing [msgHello]) = []"
  by (simp add: posted_collection updated_collection deleted_collection examples)

subsection \<open>The claims\<close>

text \<open>
  C1. For a message \<open>m\<close> whose identifier is present in the collection, the
  \<open>messageUpdated\<close> handler keeps the length of the collection, puts \<open>m\<close> at every
  position whose entry has the identifier of \<open>m\<close>, and leaves every other position as it
  was; \<open>m\<close> is then an entry of the collection.
\<close>

theorem messageUpdated_replaces_matching_only:
  assumes "id_m m \<in> id_m ` set (messages st)"
  shows "length (onUpdated m st) = length (messages st) \<and>
         (\<forall>i < length (messages st).
            onUpdated m st ! i = (if id_m (messages st ! i) = id_m m then m else messages st ! i)) \<and>
         m \<in> set (onUpdated m st)"
proof -
  from assms obtain x where "x \<in> set (messages st)" "id_m x = id_m m" by force
  then have "m \<in> set (onUpdated m st)"
    by (force simp: updated_collection image_iff)
  then show ?thesis by (simp add: updated_collection)
qed

text \<open>An edit of message 1 arrives while messages 2 and 1 are shown.\<close>

theorem messageUpdated_replaces_matching_only_witness:
  "id_m msgHello \<in> id_m ` set (messages (showing [msgOther, msgHi])) \<and>
   onUpdated msgHello (showing [msgOther, msgHi]) = [msgOther, msgHello]"
  using messageUpdated_replaces_matching_only [of msgHello "showing [msgOther, msgHi]"]
  by (simp add: updated_collection showing_def mounted_def msgHi_def msgHello_def msgOther_def ascii_def)

text \<open>
  C2 as stated fails where an identifier occurs twice. After the refetch of a local post
  and the \<open>messagePosted\<close> event for the same message, message 1 is shown twice; the
  \<open>messageDeleted\<close> event for it, with \<open>success = true\<close>, removes both entries, not
  exactly one.
\<close>

theorem messageDeleted_exactly_one_counterexample:
  "id_m msgHi \<in> id_m ` set (messages refetchedThenPosted) \<and>
   length (messages refetchedThenPosted) = 2 \<and>
   length (onDeleted (id_m msgHi) True refetchedThenPosted) = 0 \<and>
   length (onDeleted (id_m msgHi) True refetchedThenPosted) + 1 \<noteq>
     length (messages refetchedThenPosted)"
  by (simp add: refetchedThenPosted_messages deleted_collection)

text \<open>
  C2, amended. With \<open>success = true\<close> the \<open>messageDeleted\<close> handler removes every
  entry whose identifier matches and keeps the other entries in their order: the length
  drops by the number of matching entries. That is exactly one entry when the identifiers
  of the collection are pairwise distinct and the identifier is present, and none when it
  is absent. With \<open>success = false\<close> the collection is unchanged.
\<close>

theorem messageDeleted_removes_every_match:
  "onDeleted i True st = filter (\<lambda>msg. id_m msg \<noteq> i) (messages st) \<and>
   length (onDeleted i True st) =
     length (messages st) - length (filter (\<lambda>msg. id_m msg = i) (messages st)) \<and>
   (distinct (map id_m (messages st)) \<and> i \<in> id_m ` set (messages st) \<longrightarrow>
      length (onDeleted i True st) + 1 = length (messages st)) \<and>
   (i \<notin> id_m ` set (messages st) \<longrightarrow> onDeleted i True st = messages st) \<and>
   onDeleted i False st = messages st"
proof -
  have one: "length (onDeleted i True st) + 1 = length (messages st)"
    if "distinct (map id_m (messages st))" "i \<in> id_m ` set (messages st)"
  proof -
    from that have "length (filter (\<lambda>msg. id_m msg = i) (messages st)) = 1"
      by (rule distinct_one_match)
    moreover have "length (filter (\<lambda>msg. id_m msg = i) (messages st)) \<le> length (messages st)"
      by (rule length_filter_le)
    ultimately show ?thesis
      by (simp add: deleted_collection length_filter_complement)
  qed
  have none: "onDeleted i True st = messages st" if "i \<notin> id_m ` set (messages st)"
    using that by (auto simp: deleted_collection filter_id_conv)
  from one none show ?thesis
    by (simp add: deleted_collection length_filter_complement)
qed

text \<open>
  Message 1 is deleted while messages 2 and 1 are shown, and while only message 2 is.
\<close>

theorem messageDeleted_removes_every_match_witness:
  "distinct (map id_m (messages (showing [msgOther, msgHi]))) \<and>
   id_m msgHi \<in> id_m ` set (messages (showing [msgOther, msgHi])) \<and>
   onDeleted (id_m msgHi) True (showing [msgOther, msgHi]) = [msgOther] \<and>
   length (onDeleted (id_m msgHi) True (showing [msgOther, msgHi])) + 1 =
     length (messages (showing [msgOther, msgHi])) \<and>
   onDeleted (id_m msgHi) False (showing [msgOther, msgHi]) = [msgOther, msgHi] \<and>
   id_m msgHi \<notin> id_m ` set (messages (showing [msgOther])) \<and>
   onDeleted (id_m msgHi) True (showing [msgOther]) = [msgOther]"
  using messageDeleted_removes_every_match [of "id_m msgHi" "showing [msgOther, msgHi]"]
    messageDeleted_removes_every_match [of "id_m msgHi" "showing [msgOther]"]
  by (simp add: examples)

text \<open>
  C3. For every collection and every message \<open>m\<close>, the \<open>messagePosted\<close> handler
  appends \<open>m\<close> at the end of the collection, which grows by exactly one entry.
\<close>

theorem messagePosted_appends:
  "onCreated m st = messages st @ [m] \<and>
   length (onCreated m st) = length (messages st) + 1"
  by (simp add: posted_collection)

text \<open>Message 1 is posted while message 2 is shown.\<close>

theorem messagePosted_appends_witness:
  "onCreated msgHi (showing [msgOther]) = [msgOther, msgHi] \<and>
   length (onCreated msgHi (showing [msgOther])) = 2"
  using messagePosted_appends [of msgHi "showing [msgOther]"]
  by (simp add: examples)

text \<open>
  C4. Whatever the collection was, after \<open>fetchMessages\<close> has received a response that
  carries a list of messages, the collection is that list, in the order of the server;
  nothing else of the state changes, and one query has been sent.
\<close>

theorem fetchMessages_replaces_collection:
  "fetchMessages (messagesResponse ms) st = (st\<lparr>messages := ms\<rparr>, [Fetch QueryMessages]) \<and>
   messages (fst (fetchMessages (messagesResponse ms) st)) = ms"
  by (simp add: fetchMessages_def messagesResponse_def)

text \<open>A list of two messages and the empty list each replace what was shown.\<close>

theorem fetchMessages_replaces_collection_witness:
  "messages (fst (fetchMessages (messagesResponse [msgOther, msgHi]) (showing [msgHello]))) =
     [msgOther, msgHi] \<and>
   messages (fst (fetchMessages (messagesResponse []) (showing [msgHello]))) = []"
  using fetchMessages_replaces_collection [of "[msgOther, msgHi]" "showing [msgHello]"]
    fetchMessages_replaces_collection [of "[]" "showing [msgHello]"]
  by simp

text \<open>
  C5. When the request fails (the \<open>fetch\<close> or the decoding rejects) or the response has
  no \<open>messages\<close> payload (the response, its \<open>data\<close> or \<open>data.messages\<close> is
  \<open>null\<close>), \<open>fetchMessages\<close> leaves the state, and so the collection, as it was.
\<close>

theorem fetchMessages_failed_keeps_state:
  assumes "case res of Rejected \<Rightarrow> True
           | Resolved json \<Rightarrow> Option.bind (Option.bind json data) messages_q = None"
  shows "fst (fetchMessages res st) = st \<and>
         messages (fst (fetchMessages res st)) = messages st"
  using assms by (simp add: fetchMessages_def split: outcome.splits)

text \<open>The four ways to fail, each with message 1 shown.\<close>

theorem fetchMessages_failed_keeps_state_witness:
  "Option.bind (Option.bind (Some \<lparr>data = Some \<lparr>messages_q = None\<rparr>\<rparr>) data) messages_q = None \<and>
   messages (fst (fetchMessages (Resolved (Some \<lparr>data = Some \<lparr>messages_q = None\<rparr>\<rparr>))
     (showing [msgHi]))) = [msgHi] \<and>
   messages (fst (fetchMessages (Resolved (Some \<lparr>data = None\<rparr>)) (showing [msgHi]))) = [msgHi] \<and>
   messages (fst (fetchMessages (Resolved None) (showing [msgHi]))) = [msgHi] \<and>
   messages (fst (fetchMessages Rejected (showing [msgHi]))) = [msgHi]"
  using fetchMessages_failed_keeps_state
      [of "Resolved (Some \<lparr>data = Some \<lparr>messages_q = None\<rparr>\<rparr>)" "showing [msgHi]"]
    fetchMessages_failed_keeps_state [of "Resolved (Some \<lparr>data = None\<rparr>)" "showing [msgHi]"]
    fetchMessages_failed_keeps_state [of "Resolved None" "showing [msgHi]"]
    fetchMessages_failed_keeps_state [of Rejected "showing [msgHi]"]
  by (simp add: showing_def)

text \<open>
  C6. For every author and every text that is empty or has only white space in it,
  \<open>sendMessage\<close> (with that text in the input field) and \<open>saveEdit\<close> (with that text
  in the edit field) send no request and leave the state as it is, whatever the network
  would have answered.
\<close>

theorem blank_text_sends_nothing:
  assumes "list_all isWhiteSpace t"
  shows "sendMessage posted res (st\<lparr>user := a, text_s := t\<rparr>) = (st\<lparr>user := a, text_s := t\<rparr>, []) \<and>
         saveEdit i updated res (st\<lparr>editingText := t\<rparr>) = (st\<lparr>editingText := t\<rparr>, [])"
proof -
  from assms have "trim t = []" by (simp add: trim_empty_iff)
  then show ?thesis by (simp add: sendMessage_def saveEdit_def truthy_def)
qed

text \<open>The texts \<open>" "\<close>, \<open>""\<close> and ideographic space, tab, line feed.\<close>

theorem blank_text_sends_nothing_witness:
  "list_all isWhiteSpace (ascii '' '') \<and> list_all isWhiteSpace [] \<and>
   list_all isWhiteSpace [0x3000, 0x0009, 0x000A] \<and>
   sendMessage (Resolved ()) (messagesResponse [msgHi]) (mounted\<lparr>user := ascii ''A'', text_s := ascii '' ''\<rparr>) =
     (mounted\<lparr>user := ascii ''A'', text_s := ascii '' ''\<rparr>, []) \<and>
   sendMessage (Resolved ()) (messagesResponse [msgHi]) (mounted\<lparr>user := ascii ''A'', text_s := []\<rparr>) =
     (mounted\<lparr>user := ascii ''A'', text_s := []\<rparr>, []) \<and>
   saveEdit (ascii ''1'') (Resolved ()) (messagesResponse [msgHi])
       (mounted\<lparr>editingText := [0x3000, 0x0009, 0x000A]\<rparr>) =
     (mounted\<lparr>editingText := [0x3000, 0x0009, 0x000A]\<rparr>, [])"
  using blank_text_sends_nothing [where t = "ascii '' ''" and posted = "Resolved ()"
      and res = "messagesResponse [msgHi]" and st = mounted and a = "ascii ''A''"]
    blank_text_sends_nothing [where t = "[]" and posted = "Resolved ()"
      and res = "messagesResponse [msgHi]" and st = mounted and a = "ascii ''A''"]
    blank_text_sends_nothing [where t = "[0x3000, 0x0009, 0x000A]" and i = "ascii ''1''"
      and updated = "Resolved ()" and res = "messagesResponse [msgHi]" and st = mounted]
  by (simp add: isWhiteSpace_def ascii_def)

text \<open>
  The guard is no more than that: any other text is posted, the input field is cleared and
  the collection is fetched again.
\<close>

lemma nonblank_text_is_sent:
  assumes "\<not> list_all isWhiteSpace (text_s st)"
  shows "sendMessage (Resolved ()) (messagesResponse ms) st =
           (st\<lparr>messages := ms, text_s := []\<rparr>,
            [Fetch (PostMessage (user st) (text_s st)), Fetch QueryMessages])"
proof -
  from assms have "trim (text_s st) \<noteq> []" by (simp add: trim_empty_iff)
  then show ?thesis
    by (simp add: sendMessage_def truthy_def fetchMessages_def messagesResponse_def)
qed

text \<open>
  C7. For a message \<open>m\<close> whose identifier is absent from the collection, the
  \<open>messageUpdated\<close> handler leaves the collection, and the whole state, unchanged.
\<close>

theorem messageUpdated_absent_unchanged:
  assumes "id_m m \<notin> id_m ` set (messages st)"
  shows "onUpdated m st = messages st \<and> fst (messageUpdated_next (updatedEvent m) st) = st"
proof -
  from assms have "map (\<lambda>msg. if id_m msg = id_m m then m else msg) (messages st) = messages st"
    by (rule map_if_absent)
  then show ?thesis by (simp add: messageUpdated_next_def updatedEvent_def)
qed

text \<open>An edit of message 1 arrives while only message 2 is shown.\<close>

theorem messageUpdated_absent_unchanged_witness:
  "id_m msgHello \<notin> id_m ` set (messages (showing [msgOther])) \<and>
   onUpdated msgHello (showing [msgOther]) = [msgOther]"
  using messageUpdated_absent_unchanged [of msgHello "showing [msgOther]"]
  by (simp add: examples)

text \<open>
  C8. The \<open>messageDeleted\<close> handler with \<open>success = true\<close> is idempotent: handling the
  same event a second time gives the collection of the first time. An event for an
  identifier that the collection does not hold changes nothing, in particular after a
  refetch whose list no longer has the message.
\<close>

theorem messageDeleted_idempotent:
  "onDeleted i True (fst (messageDeleted_next (deletedEvent i True) st)) = onDeleted i True st \<and>
   (i \<notin> id_m ` set (messages st) \<longrightarrow> onDeleted i True st = messages st) \<and>
   (i \<notin> id_m ` set ms \<longrightarrow>
      onDeleted i True (fst (fetchMessages (messagesResponse ms) st)) = ms)"
proof -
  have absent: "filter (\<lambda>msg. id_m msg \<noteq> i) xs = xs" if "i \<notin> id_m ` set xs" for xs
    using that by (auto simp: filter_id_conv)
  have "onDeleted i True (fst (messageDeleted_next (deletedEvent i True) st)) =
          filter (\<lambda>msg. id_m msg \<noteq> i) (onDeleted i True st)"
    by (simp add: deleted_collection)
  also have "\<dots> = onDeleted i True st"
    by (simp add: deleted_collection)
  finally show ?thesis
    by (simp add: deleted_collection fetched_collection absent)
qed

text \<open>
  Message 1 is deleted twice; it is deleted after a refetch that no longer has it; and it
  is deleted while only message 2 is shown.
\<close>

theorem messageDeleted_idempotent_witness:
  "onDeleted (id_m msgHi) True (showing [msgOther, msgHi]) = [msgOther] \<and>
   onDeleted (id_m msgHi) True
     (fst (messageDeleted_next (deletedEvent (id_m msgHi) True) (showing [msgOther, msgHi]))) =
     [msgOther] \<and>
   id_m msgHi \<notin> id_m ` set [msgOther] \<and>
   onDeleted (id_m msgHi) True
     (fst (fetchMessages (messagesResponse [msgOther]) (showing [msgOther, msgHi]))) = [msgOther] \<and>
   id_m msgHi \<notin> id_m ` set (messages (showing [msgOther])) \<and>
   onDeleted (id_m msgHi) True (showing [msgOther]) = [msgOther]"
  using messageDeleted_idempotent [of "id_m msgHi" "showing [msgOther, msgHi]" "[msgOther]"]
    messageDeleted_idempotent [of "id_m msgHi" "showing [msgOther]" "[msgOther]"]
  by (simp add: deleted_collection examples)

text \<open>
  C9. Two \<open>messagePosted\<close> events for one message leave (at least) two entries with its
  identifier, since nothing de-duplicates. On any collection, after the
  \<open>messageUpdated\<close> handler the entries with the identifier of \<open>m\<close> are as many as
  before and are all \<open>m\<close>; after the \<open>messageDeleted\<close> handler with
  \<open>success = true\<close> no entry with the identifier is left, and the length has dropped by
  the number of entries that had it.
\<close>

theorem duplicates_updated_and_deleted_together:
  "2 \<le> length (filter (\<lambda>msg. id_m msg = id_m m)
          (onCreated m (fst (messagePosted_next (postedEvent m) st)))) \<and>
   filter (\<lambda>msg. id_m msg = id_m m) (onUpdated m st) =
     replicate (length (filter (\<lambda>msg. id_m msg = id_m m) (messages st))) m \<and>
   filter (\<lambda>msg. id_m msg = i) (onDeleted i True st) = [] \<and>
   length (onDeleted i True st) =
     length (messages st) - length (filter (\<lambda>msg. id_m msg = i) (messages st))"
proof -
  have "filter (\<lambda>msg. id_m msg = id_m m) (onUpdated m st) =
          replicate (length (filter (\<lambda>msg. id_m msg = id_m m) (messages st))) m"
    unfolding updated_collection by (rule filter_matching_replaced) (rule refl)
  moreover have "filter (\<lambda>msg. id_m msg = i) (onDeleted i True st) = []"
    by (simp add: deleted_collection filter_empty_conv)
  ultimately show ?thesis
    by (simp add: posted_collection deleted_collection length_filter_complement)
qed

text \<open>
  Message 1 is shown twice: an edit replaces both entries, a deletion removes both.
\<close>

theorem duplicates_updated_and_deleted_together_witness:
  "messages refetchedThenPosted = [msgHi, msgHi] \<and>
   onUpdated msgHello refetchedThenPosted = [msgHello, msgHello] \<and>
   onDeleted (id_m msgHi) True refetchedThenPosted = []"
  using duplicates_updated_and_deleted_together [of msgHello refetchedThenPosted "id_m msgHi"]
  by (simp add: refetchedThenPosted_messages updated_collection deleted_collection
      msgHi_def msgHello_def)

text \<open>
  C10. At every position whose entry has the identifier of the event's message, the
  \<open>messageUpdated\<close> handler stores the event's message itself: the author, the text and
  the creation timestamp of the entry are those of the payload.
\<close>

theorem messageUpdated_replaces_whole_record:
  "\<forall>k < length (messages st). id_m (messages st ! k) = id_m m \<longrightarrow>
     onUpdated m st ! k = m \<and>
     user_m (onUpdated m st ! k) = user_m m \<and>
     text_m (onUpdated m st ! k) = text_m m \<and>
     createdAt (onUpdated m st ! k) = createdAt m"
  by (simp add: updated_collection)

text \<open>
  An update event for message 1 with another author and timestamp: the stored author
  \<open>A\<close> becomes \<open>Z\<close>.
\<close>

theorem messageUpdated_replaces_whole_record_witness:
  "id_m (messages (showing [msgOther, msgHi]) ! 1) = id_m msgForeign \<and>
   onUpdated msgForeign (showing [msgOther, msgHi]) = [msgOther, msgForeign] \<and>
   user_m (onUpdated msgForeign (showing [msgOther, msgHi]) ! 1) = ascii ''Z'' \<and>
   createdAt (onUpdated msgForeign (showing [msgOther, msgHi]) ! 1) = ascii ''t9'' \<and>
   user_m (messages (showing [msgOther, msgHi]) ! 1) = ascii ''A''"
  using messageUpdated_replaces_whole_record [of "showing [msgOther, msgHi]" msgForeign]
  by (simp add: updated_collection examples)

end
